theory Spec2Isabelle
  imports Main "HOL-Library.Word"
begin

unbundle bit_operations_syntax

section \<open>offcputime: off-CPU time by kernel stack (tools/offcputime.py)\<close>

text \<open>
  The tool has two halves. The probe \<open>oncpu\<close> is C text handed to the BPF runtime; it
  runs at every \<open>finish_task_switch\<close> and keeps two hash tables, \<open>start\<close> (thread id to
  the timestamp at which the thread left the processor) and \<open>counts\<close> (thread name and
  stack id to accumulated microseconds). The Python script validates the arguments,
  substitutes the thread filter into the C text, attaches the probe, sleeps, and then
  prints and clears \<open>counts\<close>.

  Machine integers are words of the width the C text declares: \<open>u32\<close> thread ids,
  \<open>u64\<close> timestamps and durations, \<open>int\<close> stack ids.
\<close>

subsection \<open>Tables of the probe\<close>

type_synonym u32 = "32 word"
type_synonym u64 = "64 word"

text \<open>\<open>struct key_t { char name[TASK_COMM_LEN]; int stack_id; }\<close>\<close>

record key_t =
  name :: string
  stack_id :: u32

text \<open>
  \<open>BPF_HASH(counts, struct key_t)\<close>, \<open>BPF_HASH(start, u32)\<close> and
  \<open>BPF_STACK_TRACE(stack_traces, 1024)\<close>. The script iterates over \<open>counts\<close>, so that
  table is an association list with distinct keys whose order is the iteration order
  of the table; the other two are only looked up by key. The capacity of the two hash
  tables is fixed by the \<open>BPF_HASH\<close> macro of the runtime, which is not part of the
  tool, and is not modelled: an update always finds room.
\<close>

record bpf_tables =
  counts :: "(key_t \<times> u64) list"
  start :: "u32 \<rightharpoonup> u64"
  stack_traces :: "u32 \<rightharpoonup> u64 list"

definition no_tables :: bpf_tables where
  "no_tables = \<lparr>counts = [], start = Map.empty, stack_traces = Map.empty\<rparr>"

subsection \<open>One invocation of the probe\<close>

text \<open>
  Everything \<open>oncpu\<close> reads from the kernel during one invocation:
  \<^item> \<open>pid_uninit\<close>: the content of the local \<open>u32 pid\<close> before its first assignment.
    The local is declared without an initialiser and is first assigned inside the
    \<open>if (FILTER)\<close> block, so a filter that mentions \<open>pid\<close> reads this
    indeterminate value;
  \<^item> \<open>prev_pid\<close>, \<open>prev_flags\<close>: \<open>prev->pid\<close> and \<open>prev->flags\<close> of the
    outgoing task;
  \<^item> \<open>ktime_record\<close>: the result of \<open>bpf_ktime_get_ns()\<close> inside the filter block;
  \<^item> \<open>current_pid_tgid\<close>: the result of \<open>bpf_get_current_pid_tgid()\<close>;
  \<^item> \<open>ktime_delta\<close>: the result of the second \<open>bpf_ktime_get_ns()\<close>;
  \<^item> \<open>current_comm\<close>: what \<open>bpf_get_current_comm\<close> writes into \<open>key.name\<close>;
  \<^item> \<open>stackid\<close>, \<open>stack_frames\<close>: the value \<open>stack_traces.get_stackid\<close> returns
    and the frames the kernel holds under that id afterwards.
\<close>

record sched_switch =
  pid_uninit :: u32
  prev_pid :: u32
  prev_flags :: u32
  ktime_record :: u64
  current_pid_tgid :: u64
  ktime_delta :: u64
  current_comm :: string
  stackid :: u32
  stack_frames :: "u64 list"

text \<open>\<open>#define MINBLOCK_US 1\<close>, and \<open>PF_KTHREAD\<close> of \<open>linux/sched.h\<close>.\<close>

definition MINBLOCK_US :: u64 where
  "MINBLOCK_US = 1"

definition PF_KTHREAD :: u32 where
  "PF_KTHREAD = 0x00200000"

text \<open>
  The three texts the script substitutes for \<open>FILTER\<close>:
  \<open>pid == <PID>\<close>, \<open>!(prev->flags & PF_KTHREAD)\<close> and \<open>1\<close>.
\<close>

datatype FILTER = Pid_eq nat | Not_kthread | One

text \<open>
  The value of the filter expression where the C text evaluates it, at the head of
  \<open>oncpu\<close>. There \<open>pid\<close> is the local variable, not yet assigned. The comparison of
  a \<open>u32\<close> with a non-negative integer literal compares the two values.
\<close>

fun eval_FILTER :: "FILTER \<Rightarrow> sched_switch \<Rightarrow> bool" where
  "eval_FILTER (Pid_eq n) e = (unat (pid_uninit e) = n)"
| "eval_FILTER Not_kthread e = (prev_flags e AND PF_KTHREAD = 0)"
| "eval_FILTER One e = True"

text \<open>\<open>pid = bpf_get_current_pid_tgid()\<close>: the assignment to a \<open>u32\<close> keeps the low half.\<close>

definition current_pid :: "sched_switch \<Rightarrow> u32" where
  "current_pid e = ucast (current_pid_tgid e)"

text \<open>
  Modelled from the spec: \<open>stack_traces.get_stackid(ctx, BPF_F_REUSE_STACKID)\<close> is a
  helper of the kernel. A successful capture returns a non-negative id and leaves the
  captured frames stored under it; a failed capture returns a negative value and stores
  nothing.
\<close>

definition get_stackid :: "sched_switch \<Rightarrow> (u32 \<rightharpoonup> u64 list) \<Rightarrow> (u32 \<rightharpoonup> u64 list)" where
  "get_stackid e st = (if 0 \<le> sint (stackid e) then st(stackid e \<mapsto> stack_frames e) else st)"

text \<open>\<open>val = counts.lookup_or_init(&key, &zero); (*val) += delta;\<close>\<close>

fun lookup_or_init_add :: "key_t \<Rightarrow> u64 \<Rightarrow> (key_t \<times> u64) list \<Rightarrow> (key_t \<times> u64) list" where
  "lookup_or_init_add k d [] = [(k, 0 + d)]"
| "lookup_or_init_add k d ((k', v) # kvs) =
     (if k' = k then (k', v + d) # kvs else (k', v) # lookup_or_init_add k d kvs)"

text \<open>
  The first block of the probe, \<open>if (FILTER) { pid = prev->pid; ts = bpf_ktime_get_ns();
  start.update(&pid, &ts); }\<close>.
\<close>

definition record_prev :: "FILTER \<Rightarrow> sched_switch \<Rightarrow> bpf_tables \<Rightarrow> bpf_tables" where
  "record_prev f e s =
     (if eval_FILTER f e
      then s\<lparr>start := (start s)(prev_pid e \<mapsto> ktime_record e)\<rparr>
      else s)"

text \<open>The key the probe builds from the current task and the captured stack.\<close>

definition map_key :: "sched_switch \<Rightarrow> key_t" where
  "map_key e = \<lparr>name = current_comm e, stack_id = stackid e\<rparr>"

text \<open>The probe, statement by statement.\<close>

definition oncpu :: "FILTER \<Rightarrow> sched_switch \<Rightarrow> bpf_tables \<Rightarrow> bpf_tables" where
  "oncpu f e s =
     (let s1 = record_prev f e s;
          pid = current_pid e
      in case start s1 pid of
           None \<Rightarrow> s1
         | Some tsp \<Rightarrow>
             (let delta = ktime_delta e - tsp;
                  s2 = s1\<lparr>start := (start s1)(pid := None)\<rparr>;
                  delta = delta div 1000
              in if delta < MINBLOCK_US then s2
                 else
                   (let key = map_key e;
                        s3 = s2\<lparr>stack_traces := get_stackid e (stack_traces s2)\<rparr>
                    in s3\<lparr>counts := lookup_or_init_add key delta (counts s3)\<rparr>)))"

text \<open>The probe run on a sequence of scheduling transitions, oldest first.\<close>

fun run :: "FILTER \<Rightarrow> sched_switch list \<Rightarrow> bpf_tables \<Rightarrow> bpf_tables" where
  "run f [] s = s"
| "run f (e # es) s = run f es (oncpu f e s)"

subsection \<open>Switch-out and switch-in of one thread\<close>

text \<open>
  An invocation of the probe in which thread \<open>tid\<close> leaves the processor and passes the
  filter, while the task coming in is another one and is accounted under another key
  than \<open>k\<close>; and an invocation in which \<open>tid\<close> comes back and is accounted under \<open>k\<close>.
\<close>

definition switch_out :: "FILTER \<Rightarrow> u32 \<Rightarrow> key_t \<Rightarrow> sched_switch \<Rightarrow> bool" where
  "switch_out f tid k e \<longleftrightarrow>
     eval_FILTER f e \<and> prev_pid e = tid \<and> current_pid e \<noteq> tid \<and> map_key e \<noteq> k"

definition switch_in :: "u32 \<Rightarrow> key_t \<Rightarrow> sched_switch \<Rightarrow> bool" where
  "switch_in tid k e \<longleftrightarrow> current_pid e = tid \<and> prev_pid e \<noteq> tid \<and> map_key e = k"

text \<open>
  A sequence of (switch-out, switch-in) pairs as the sequence of invocations it is, the
  clock readings the pairs use, in the order they are taken, and the microseconds one
  pair spends off the processor.
\<close>

definition pair_events :: "(sched_switch \<times> sched_switch) list \<Rightarrow> sched_switch list" where
  "pair_events ps = concat (map (\<lambda>p. [fst p, snd p]) ps)"

definition pair_clock :: "(sched_switch \<times> sched_switch) list \<Rightarrow> nat list" where
  "pair_clock ps = concat (map (\<lambda>p. [unat (ktime_record (fst p)), unat (ktime_delta (snd p))]) ps)"

definition pair_delta_us :: "sched_switch \<times> sched_switch \<Rightarrow> nat" where
  "pair_delta_us p = (unat (ktime_delta (snd p)) - unat (ktime_record (fst p))) div 1000"

text \<open>The same microseconds as the probe computes them, in \<open>u64\<close> arithmetic.\<close>

definition wdelta :: "sched_switch \<times> sched_switch \<Rightarrow> u64" where
  "wdelta p = (ktime_delta (snd p) - ktime_record (fst p)) div 1000"

definition well_paired :: "FILTER \<Rightarrow> u32 \<Rightarrow> key_t \<Rightarrow> sched_switch \<times> sched_switch \<Rightarrow> bool" where
  "well_paired f tid k p \<longleftrightarrow>
     switch_out f tid k (fst p) \<and> switch_in tid k (snd p) \<and> unat MINBLOCK_US \<le> pair_delta_us p"

subsection \<open>Arguments and filter substitution\<close>

text \<open>
  The parsed arguments. \<open>pid\<close> is the value of the text given to \<open>-p\<close>, which the
  script pastes into the C text as an integer literal; \<open>None\<close> stands for the values
  Python takes as false (the option absent, or an empty text). \<open>duration\<close> is
  \<open>int(args.duration)\<close>, \<open>None\<close> when the text is no integer and \<open>int\<close> raises;
  the default is 99999999.
\<close>

record args =
  useronly :: bool
  pid :: "nat option"
  verbose :: bool
  folded :: bool
  duration :: "int option"

text \<open>
  \<open>if args.pid: filter = 'pid == %s' % args.pid\<close>,
  \<open>elif args.useronly: filter = '!(prev->flags & PF_KTHREAD)'\<close>,
  \<open>else: filter = '1'\<close>.
\<close>

definition filter_of :: "args \<Rightarrow> FILTER" where
  "filter_of a =
     (case pid a of
        Some n \<Rightarrow> Pid_eq n
      | None \<Rightarrow> if useronly a then Not_kthread else One)"

subsection \<open>Formatting\<close>

definition digit_char :: "nat \<Rightarrow> char" where
  "digit_char d = ''0123456789abcdef'' ! d"

text \<open>\<open>%d\<close> and \<open>%x\<close> of a non-negative integer.\<close>

fun dec :: "nat \<Rightarrow> string" where
  "dec n = (if n < 10 then [digit_char n] else dec (n div 10) @ [digit_char (n mod 10)])"

fun hex :: "nat \<Rightarrow> string" where
  "hex n = (if n < 16 then [digit_char n] else hex (n div 16) @ [digit_char (n mod 16)])"

declare dec.simps [simp del]
declare hex.simps [simp del]

definition fmt_d :: "int \<Rightarrow> string" where
  "fmt_d i = (if i < 0 then CHR ''-'' # dec (nat (- i)) else dec (nat i))"

text \<open>\<open>%-16s\<close> and \<open>%-16x\<close>: left-justified in a field of the given width.\<close>

definition ljust :: "nat \<Rightarrow> string \<Rightarrow> string" where
  "ljust w s = s @ replicate (w - length s) CHR '' ''"

text \<open>\<open>sep.join(xs)\<close>\<close>

fun join :: "string \<Rightarrow> string list \<Rightarrow> string" where
  "join sep [] = []"
| "join sep [x] = x"
| "join sep (x # y # ys) = x @ sep @ join sep (y # ys)"

subsection \<open>Rendering one entry\<close>

text \<open>
  Modelled from the spec: \<open>stack_traces.walk(stack_id)\<close> belongs to the table class of
  the runtime library. It resolves a stack id to the addresses stored under it, innermost
  first; an id with nothing stored is an unknown stack and yields no frame.
\<close>

definition walk :: "(u32 \<rightharpoonup> u64 list) \<Rightarrow> u32 \<Rightarrow> u64 list" where
  "walk st sid = (case st sid of None \<Rightarrow> [] | Some frames \<Rightarrow> frames)"

text \<open>
  The folded branch: \<open>stack = list(stack_traces.walk(k.stack_id))[1:]\<close>,
  \<open>line = [k.name.decode()] + [b.ksym(addr) for addr in reversed(stack)]\<close>,
  \<open>print("%s %d" % (";".join(line), v.value))\<close>. The symbol resolver \<open>b.ksym\<close> is a
  parameter.
\<close>

definition folded_line :: "(u64 \<Rightarrow> string) \<Rightarrow> (u32 \<rightharpoonup> u64 list) \<Rightarrow> key_t \<times> u64 \<Rightarrow> string" where
  "folded_line ksym st kv =
     (let k = fst kv; v = snd kv;
          stack = drop 1 (walk st (stack_id k));
          line = [name k] @ map ksym (rev stack)
      in join '';'' line @ '' '' @ dec (unat v))"

text \<open>
  The multi-line branch: one line \<open>"    %-16x %s" % (addr, b.ksym(addr))\<close> for each
  walked address, then \<open>"    %-16s %s" % ("-", k.name)\<close>, then \<open>"        %d\n"\<close>,
  whose newline leaves an empty line behind.
\<close>

definition multi_lines :: "(u64 \<Rightarrow> string) \<Rightarrow> (u32 \<rightharpoonup> u64 list) \<Rightarrow> key_t \<times> u64 \<Rightarrow> string list" where
  "multi_lines ksym st kv =
     (let k = fst kv; v = snd kv
      in map (\<lambda>addr. ''    '' @ ljust 16 (hex (unat addr)) @ '' '' @ ksym addr)
             (walk st (stack_id k))
         @ [''    '' @ ljust 16 ''-'' @ '' '' @ name k,
            ''        '' @ dec (unat v),
            []])"

text \<open>The body of the \<open>for k, v in sorted(...)\<close> loop; \<open>args.verbose\<close> is not read.\<close>

definition render_entry :: "args \<Rightarrow> (u64 \<Rightarrow> string) \<Rightarrow> (u32 \<rightharpoonup> u64 list) \<Rightarrow> key_t \<times> u64 \<Rightarrow> string list" where
  "render_entry a ksym st kv =
     (if folded a then [folded_line ksym st kv] else multi_lines ksym st kv)"

text \<open>
  \<open>for k, v in sorted(counts.items(), key=lambda counts: counts[1].value)\<close>: a stable
  sort, ascending in the unsigned value.
\<close>

definition render_entries :: "args \<Rightarrow> (u64 \<Rightarrow> string) \<Rightarrow> bpf_tables \<Rightarrow> string list" where
  "render_entries a ksym t =
     concat (map (render_entry a ksym (stack_traces t)) (sort_key snd (counts t)))"

subsection \<open>The script\<close>

text \<open>
  What the host gives the script: the symbol resolver, whether \<open>BPF(text=bpf_text)\<close>
  and \<open>attach_kprobe\<close> return or raise, the value of \<open>num_open_kprobes()\<close>, and, for the
  wait that follows the \<open>n\<close>-th drain, how \<open>sleep(duration)\<close> ends and which
  scheduling transitions the attached probe sees meanwhile.
\<close>

datatype sleep_result = Elapsed | KeyboardInterrupt | Sleep_raises

record host =
  ksym :: "u64 \<Rightarrow> string"
  bpf_loads :: bool
  kprobe_attaches :: bool
  num_open_kprobes :: nat
  sleeps :: "nat \<Rightarrow> sleep_result"
  switches :: "nat \<Rightarrow> sched_switch list"

text \<open>
  The state of the process: the lines printed, the number of calls of \<open>attach_kprobe\<close>,
  the tables of the probe, whether \<open>SIGINT\<close> is routed to \<open>signal_ignore\<close>, and the
  number of times \<open>counts.clear()\<close> has run.
\<close>

record process =
  stdout :: "string list"
  attach_calls :: nat
  tables :: bpf_tables
  sigint_trapped :: bool
  drains :: nat

datatype exn = ValueError | BPF_exception | Attach_exception | Sleep_exception

text \<open>
  How a piece of the script ends: it falls through to the next statement, calls
  \<open>exit()\<close>, or dies from an exception nobody catches.
\<close>

datatype flow = Next process | Exit process | Raise exn process

definition print :: "string \<Rightarrow> process \<Rightarrow> process" where
  "print line p = p\<lparr>stdout := stdout p @ [line]\<rparr>"

text \<open>
  The header, \<open>print("Tracing off-CPU time (us) by kernel stack", end="")\<close> completed by
  \<open>" for %d secs."\<close> or \<open>"... Hit Ctrl-C to end."\<close>.
\<close>

definition header :: "int \<Rightarrow> string" where
  "header dur =
     ''Tracing off-CPU time (us) by kernel stack'' @
     (if dur < 99999999 then '' for '' @ fmt_d dur @ '' secs.'' else ''... Hit Ctrl-C to end.'')"

text \<open>
  The drain, from \<open>if not folded: print()\<close> to \<open>print("Detaching...")\<close>: the entries
  are printed in sorted order, then \<open>counts.clear()\<close>.
\<close>

definition drain :: "args \<Rightarrow> host \<Rightarrow> process \<Rightarrow> process" where
  "drain a h p =
     (let p1 = (if \<not> folded a then print [] p else p);
          p2 = p1\<lparr>stdout := stdout p1 @ render_entries a (ksym h) (tables p1)\<rparr>;
          p3 = p2\<lparr>tables := (tables p2)\<lparr>counts := []\<rparr>, drains := drains p2 + 1\<rparr>
      in if \<not> folded a then print ''Detaching...'' p3 else p3)"

text \<open>
  The body of \<open>while (1)\<close>. The probe is attached while the script sleeps, so the
  transitions of this wait are run first. \<open>KeyboardInterrupt\<close> is caught and traps
  further interrupts; any other exception of \<open>sleep\<close> ends the process. The body ends
  in \<open>exit()\<close>.
\<close>

definition loop_body :: "args \<Rightarrow> host \<Rightarrow> process \<Rightarrow> flow" where
  "loop_body a h p =
     (case sleeps h (drains p) of
        Sleep_raises \<Rightarrow> Raise Sleep_exception p
      | r \<Rightarrow>
          (let p1 = p\<lparr>tables := run (filter_of a) (switches h (drains p)) (tables p)\<rparr>;
               p2 = (if r = KeyboardInterrupt then p1\<lparr>sigint_trapped := True\<rparr> else p1)
           in Exit (drain a h p2)))"

text \<open>\<open>while (1)\<close>: the body is repeated for as long as it falls through.\<close>

partial_function (option) output_loop :: "args \<Rightarrow> host \<Rightarrow> process \<Rightarrow> flow option" where
  "output_loop a h p =
     (case loop_body a h p of
        Next p' \<Rightarrow> output_loop a h p'
      | Exit p' \<Rightarrow> Some (Exit p')
      | Raise x p' \<Rightarrow> Some (Raise x p'))"

definition new_process :: process where
  "new_process = \<lparr>stdout = [], attach_calls = 0, tables = no_tables,
                  sigint_trapped = False, drains = 0\<rparr>"

text \<open>
  The script from \<open>duration = int(args.duration)\<close> to the end. \<open>debug\<close> is the
  constant 0, so the C text is never printed.
\<close>

definition script :: "args \<Rightarrow> host \<Rightarrow> flow option" where
  "script a h =
     (case duration a of
        None \<Rightarrow> Some (Raise ValueError new_process)
      | Some dur \<Rightarrow>
          if pid a \<noteq> None \<and> useronly a
          then Some (Exit (print ''ERROR: use either -p or -u.'' new_process))
          else if \<not> bpf_loads h then Some (Raise BPF_exception new_process)
          else
            (let p1 = new_process\<lparr>attach_calls := attach_calls new_process + 1\<rparr>
             in if \<not> kprobe_attaches h then Some (Raise Attach_exception p1)
                else if num_open_kprobes h = 0
                then Some (Exit (print ''0 functions traced. Exiting.'' p1))
                else
                  (let p2 = (if \<not> folded a then print (header dur) p1 else p1)
                   in output_loop a h p2)))"

text \<open>The state in which a run of the script ends.\<close>

fun final :: "flow \<Rightarrow> process" where
  "final (Next p) = p"
| "final (Exit p) = p"
| "final (Raise x p) = p"

subsection \<open>A sample entry\<close>

text \<open>
  A resolver that knows two addresses, and the store that holds the stack
  \<open>[frameA, frameB]\<close>, innermost frame first, under id 7.
\<close>

definition sample_ksym :: "u64 \<Rightarrow> string" where
  "sample_ksym addr =
     (if addr = 0xA then ''frameA'' else if addr = 0xB then ''frameB'' else ''[unknown]'')"

definition sample_stacks :: "u32 \<rightharpoonup> u64 list" where
  "sample_stacks = [7 \<mapsto> [0xA, 0xB]]"

definition sample_entry :: "key_t \<times> u64" where
  "sample_entry = (\<lparr>name = ''worker'', stack_id = 7\<rparr>, 1500)"

definition sample_tables :: bpf_tables where
  "sample_tables = \<lparr>counts = [sample_entry], start = Map.empty, stack_traces = sample_stacks\<rparr>"

subsection \<open>Sample transitions and sessions\<close>

text \<open>
  A transition from thread \<open>prev\<close> to thread \<open>cur\<close>, whose name is \<open>comm\<close>, with both
  clock readings equal to \<open>t\<close> and the stack of the sample store captured under id 7.
\<close>

definition sample_switch :: "u32 \<Rightarrow> u32 \<Rightarrow> string \<Rightarrow> u64 \<Rightarrow> sched_switch" where
  "sample_switch prev cur comm t =
     \<lparr>pid_uninit = 0, prev_pid = prev, prev_flags = 0, ktime_record = t,
      current_pid_tgid = ucast cur, ktime_delta = t, current_comm = comm,
      stackid = 7, stack_frames = [0xA, 0xB]\<rparr>"

text \<open>
  Thread 7, named \<open>worker\<close>, leaves the processor to the idle task twice and comes
  back after 2500 ns and after 3999 ns.
\<close>

definition sample_pairs :: "(sched_switch \<times> sched_switch) list" where
  "sample_pairs =
     [(sample_switch 7 0 ''swapper/0'' 1000000, sample_switch 0 7 ''worker'' 1002500),
      (sample_switch 7 0 ''swapper/0'' 2000000, sample_switch 0 7 ''worker'' 2003999)]"

text \<open>\<open>offcputime -f 5\<close> on a host where everything succeeds and nothing is scheduled.\<close>

definition sample_args :: args where
  "sample_args = \<lparr>useronly = False, pid = None, verbose = False, folded = True,
                  duration = Some 5\<rparr>"

definition sample_host :: host where
  "sample_host = \<lparr>ksym = sample_ksym, bpf_loads = True, kprobe_attaches = True,
                  num_open_kprobes = 1, sleeps = (\<lambda>n. Elapsed), switches = (\<lambda>n. [])\<rparr>"

section \<open>The probe\<close>

subsection \<open>What one invocation does to the tables\<close>

lemma map_of_lookup_or_init_add:
  "map_of (lookup_or_init_add k d kvs) k' =
     (if k' = k then Some ((case map_of kvs k of None \<Rightarrow> 0 | Some v \<Rightarrow> v) + d) else map_of kvs k')"
  by (induction kvs) auto

lemma start_record_prev:
  "start (record_prev f e s) p =
     (if eval_FILTER f e \<and> prev_pid e = p then Some (ktime_record e) else start s p)"
  by (simp add: record_prev_def)

lemma counts_record_prev: "counts (record_prev f e s) = counts s"
  by (simp add: record_prev_def)

lemma stack_traces_record_prev: "stack_traces (record_prev f e s) = stack_traces s"
  by (simp add: record_prev_def)

text \<open>The three ways through the probe: \<open>return 0\<close> twice, and the end of the function.\<close>

lemma oncpu_missed:
  "start (record_prev f e s) (current_pid e) = None \<Longrightarrow> oncpu f e s = record_prev f e s"
  by (simp add: oncpu_def)

lemma oncpu_short:
  "start (record_prev f e s) (current_pid e) = Some tsp \<Longrightarrow>
   (ktime_delta e - tsp) div 1000 < MINBLOCK_US \<Longrightarrow>
   oncpu f e s = (record_prev f e s)\<lparr>start := (start (record_prev f e s))(current_pid e := None)\<rparr>"
  by (simp add: oncpu_def Let_def)

lemma oncpu_sampled:
  "start (record_prev f e s) (current_pid e) = Some tsp \<Longrightarrow>
   \<not> (ktime_delta e - tsp) div 1000 < MINBLOCK_US \<Longrightarrow>
   oncpu f e s = (record_prev f e s)
      \<lparr>start := (start (record_prev f e s))(current_pid e := None),
       stack_traces := get_stackid e (stack_traces s),
       counts := lookup_or_init_add (map_key e) ((ktime_delta e - tsp) div 1000) (counts s)\<rparr>"
  by (simp add: oncpu_def Let_def counts_record_prev stack_traces_record_prev)

text \<open>Whichever way is taken, the thread that came in has no pending start afterwards.\<close>

lemma start_oncpu_current: "start (oncpu f e s) (current_pid e) = None"
  by (cases "start (record_prev f e s) (current_pid e)")
     (simp_all add: oncpu_def Let_def)

lemma current_pid_sample_switch: "current_pid (sample_switch p 7 c t) = 7"
  by (simp add: current_pid_def sample_switch_def)

subsection \<open>A switch-out followed by a switch-in\<close>

lemma switch_out_step:
  assumes "switch_out f tid k a"
  shows "start (oncpu f a s) tid = Some (ktime_record a)
         \<and> map_of (counts (oncpu f a s)) k = map_of (counts s) k"
proof -
  from assms have flt: "eval_FILTER f a" and prev: "prev_pid a = tid"
    and cur: "current_pid a \<noteq> tid" and key: "map_key a \<noteq> k"
    by (simp_all add: switch_out_def)
  have rec: "start (record_prev f a s) tid = Some (ktime_record a)"
    using flt prev by (simp add: start_record_prev)
  show ?thesis
  proof (cases "start (record_prev f a s) (current_pid a)")
    case None
    then show ?thesis using rec by (simp add: oncpu_missed counts_record_prev)
  next
    case (Some tsp)
    show ?thesis
    proof (cases "(ktime_delta a - tsp) div 1000 < MINBLOCK_US")
      case True
      with Some rec cur show ?thesis by (simp add: oncpu_short counts_record_prev)
    next
      case False
      with Some rec cur key show ?thesis
        by (simp add: oncpu_sampled map_of_lookup_or_init_add)
    qed
  qed
qed

lemma switch_in_step:
  assumes "switch_in tid k b" and "start s tid = Some tsp"
    and "MINBLOCK_US \<le> (ktime_delta b - tsp) div 1000"
  shows "map_of (counts (oncpu f b s)) k =
           Some ((case map_of (counts s) k of None \<Rightarrow> 0 | Some v \<Rightarrow> v)
                 + (ktime_delta b - tsp) div 1000)"
proof -
  from assms(1) have cur: "current_pid b = tid" and prev: "prev_pid b \<noteq> tid"
    and key: "map_key b = k"
    by (simp_all add: switch_in_def)
  have "start (record_prev f b s) (current_pid b) = Some tsp"
    using cur prev assms(2) by (simp add: start_record_prev)
  moreover have "\<not> (ktime_delta b - tsp) div 1000 < MINBLOCK_US"
    using assms(3) by simp
  ultimately show ?thesis
    using key by (simp add: oncpu_sampled map_of_lookup_or_init_add)
qed

text \<open>
  While the clock does not run backwards between the two readings of a pair, the
  \<open>u64\<close> subtraction and division of the probe are the subtraction and division of
  the readings.
\<close>

lemma unat_wdelta:
  assumes "unat (ktime_record (fst p)) \<le> unat (ktime_delta (snd p))"
  shows "unat (wdelta p) = pair_delta_us p"
proof -
  have "ktime_record (fst p) \<le> ktime_delta (snd p)"
    using assms by (simp add: word_le_nat_alt)
  then have "unat (ktime_delta (snd p) - ktime_record (fst p))
             = unat (ktime_delta (snd p)) - unat (ktime_record (fst p))"
    by (rule unat_sub)
  then show ?thesis
    by (simp add: wdelta_def pair_delta_us_def unat_div)
qed

lemma well_paired_clock:
  assumes "well_paired f tid k p"
  shows "unat (ktime_record (fst p)) \<le> unat (ktime_delta (snd p))"
proof (rule ccontr)
  assume "\<not> ?thesis"
  then have "pair_delta_us p = 0" by (simp add: pair_delta_us_def)
  with assms show False by (simp add: well_paired_def MINBLOCK_US_def)
qed

lemma well_paired_wdelta:
  assumes "well_paired f tid k p"
  shows "MINBLOCK_US \<le> wdelta p"
proof -
  have "unat (wdelta p) = pair_delta_us p"
    using assms by (intro unat_wdelta well_paired_clock)
  with assms show ?thesis by (simp add: well_paired_def word_le_nat_alt)
qed

lemma pair_step:
  assumes "well_paired f tid k p"
  shows "map_of (counts (oncpu f (snd p) (oncpu f (fst p) s))) k =
           Some ((case map_of (counts s) k of None \<Rightarrow> 0 | Some v \<Rightarrow> v) + wdelta p)"
proof -
  from assms have out: "switch_out f tid k (fst p)" and inn: "switch_in tid k (snd p)"
    by (simp_all add: well_paired_def)
  from switch_out_step [OF out, of s]
  have st: "start (oncpu f (fst p) s) tid = Some (ktime_record (fst p))"
    and cn: "map_of (counts (oncpu f (fst p) s)) k = map_of (counts s) k"
    by simp_all
  have "MINBLOCK_US \<le> (ktime_delta (snd p) - ktime_record (fst p)) div 1000"
    using well_paired_wdelta [OF assms] by (simp add: wdelta_def)
  from switch_in_step [OF inn st this] cn show ?thesis
    by (simp add: wdelta_def)
qed

text \<open>The entry after any number of pairs, in the arithmetic of the probe.\<close>

lemma run_pairs_word:
  assumes "\<forall>p\<in>set ps. well_paired f tid k p"
  shows "map_of (counts (run f (pair_events ps) s)) k =
           (if ps = [] then map_of (counts s) k
            else Some ((case map_of (counts s) k of None \<Rightarrow> 0 | Some v \<Rightarrow> v)
                       + sum_list (map wdelta ps)))"
  using assms
proof (induction ps arbitrary: s)
  case Nil
  then show ?case by (simp add: pair_events_def)
next
  case (Cons p ps)
  let ?s' = "oncpu f (snd p) (oncpu f (fst p) s)"
  have unfold: "run f (pair_events (p # ps)) s = run f (pair_events ps) ?s'"
    by (simp add: pair_events_def)
  have step: "map_of (counts ?s') k =
           Some ((case map_of (counts s) k of None \<Rightarrow> 0 | Some v \<Rightarrow> v) + wdelta p)"
    using Cons.prems by (intro pair_step [of f tid]) simp
  have ih: "map_of (counts (run f (pair_events ps) ?s')) k =
           (if ps = [] then map_of (counts ?s') k
            else Some ((case map_of (counts ?s') k of None \<Rightarrow> 0 | Some v \<Rightarrow> v)
                       + sum_list (map wdelta ps)))"
    using Cons.prems by (intro Cons.IH) simp
  show ?case
    unfolding unfold ih step by (simp add: add.assoc)
qed

text \<open>
  Readings of a clock that never runs backwards bound the sum of the deltas by the
  last reading, so the sum fits the \<open>u64\<close> entry.
\<close>

lemma clock_sum_bound:
  assumes "sorted (L # pair_clock ps)" and "\<forall>t\<in>set (pair_clock ps). t \<le> M" and "L \<le> M"
  shows "sum_list (map pair_delta_us ps) + L \<le> M"
  using assms
proof (induction ps arbitrary: L)
  case Nil
  then show ?case by simp
next
  case (Cons p ps)
  let ?x = "unat (ktime_record (fst p))" and ?y = "unat (ktime_delta (snd p))"
  have clock: "pair_clock (p # ps) = ?x # ?y # pair_clock ps"
    by (simp add: pair_clock_def)
  from Cons.prems(1) have le: "L \<le> ?x" "?x \<le> ?y" and rest: "sorted (?y # pair_clock ps)"
    by (simp_all add: clock)
  from Cons.prems(2) have "?y \<le> M" and "\<forall>t\<in>set (pair_clock ps). t \<le> M"
    by (simp_all add: clock)
  with rest have "sum_list (map pair_delta_us ps) + ?y \<le> M"
    by (intro Cons.IH)
  moreover have "pair_delta_us p \<le> ?y - ?x"
    by (simp add: pair_delta_us_def)
  ultimately show ?case using le by simp
qed

lemma unat_sum_list:
  fixes ws :: "u64 list"
  assumes "sum_list (map unat ws) < 2 ^ 64"
  shows "unat (sum_list ws) = sum_list (map unat ws)"
  using assms
proof (induction ws)
  case Nil
  then show ?case by simp
next
  case (Cons w ws)
  then have ih: "unat (sum_list ws) = sum_list (map unat ws)" by simp
  with Cons.prems have "unat w + unat (sum_list ws) < 2 ^ LENGTH(64)" by simp
  then have "unat (w + sum_list ws) = unat w + unat (sum_list ws)"
    by (simp only: unat_add_lem)
  with ih show ?case by simp
qed

subsection \<open>Claims about the probe\<close>

text \<open>
  Claim C1. Take any sequence of (switch-out, switch-in) pairs of one thread id, each
  pair off the processor for at least the threshold, the clock never running backwards,
  run with no drain in between from tables that hold nothing under the resulting key.
  Then the duration stored under that key is exactly the sum over the pairs of
  (switch-in reading minus recorded switch-out reading) divided by 1000.
\<close>

theorem paired_deltas_sum_exactly:
  assumes pairs: "\<forall>p\<in>set ps. well_paired f tid k p"
    and some: "ps \<noteq> []"
    and clock: "sorted (pair_clock ps)"
    and fresh: "map_of (counts s) k = None"
  shows "\<exists>v. map_of (counts (run f (pair_events ps) s)) k = Some v
             \<and> unat v = sum_list (map pair_delta_us ps)"
proof -
  have stored: "map_of (counts (run f (pair_events ps) s)) k = Some (sum_list (map wdelta ps))"
    using run_pairs_word [OF pairs, of s] some fresh by simp
  have each: "map (unat \<circ> wdelta) ps = map pair_delta_us ps"
    using pairs by (auto intro: unat_wdelta well_paired_clock)
  have "\<forall>t\<in>set (pair_clock ps). t \<le> 2 ^ 64 - 1"
  proof
    fix t assume "t \<in> set (pair_clock ps)"
    then obtain w :: u64 where "t = unat w" by (auto simp: pair_clock_def)
    moreover have "unat w < 2 ^ 64" using unsigned_less [of w, where 'a = nat] by simp
    ultimately show "t \<le> 2 ^ 64 - 1" by simp
  qed
  moreover have "sorted (0 # pair_clock ps)" using clock by simp
  ultimately have "sum_list (map pair_delta_us ps) + 0 \<le> 2 ^ 64 - 1"
    by (intro clock_sum_bound) simp_all
  then have "sum_list (map unat (map wdelta ps)) < 2 ^ 64"
    by (simp add: each)
  then have "unat (sum_list (map wdelta ps)) = sum_list (map unat (map wdelta ps))"
    by (rule unat_sum_list)
  then have "unat (sum_list (map wdelta ps)) = sum_list (map pair_delta_us ps)"
    by (simp add: each)
  with stored show ?thesis by simp
qed

theorem paired_deltas_sum_exactly_witness:
  "list_all (well_paired One 7 (fst sample_entry)) sample_pairs
   \<and> sample_pairs \<noteq> []
   \<and> sorted (pair_clock sample_pairs)
   \<and> map_of (counts no_tables) (fst sample_entry) = None
   \<and> (\<exists>v. map_of (counts (run One (pair_events sample_pairs) no_tables)) (fst sample_entry) = Some v
          \<and> unat v = 5)"
proof -
  have h1: "\<forall>p\<in>set sample_pairs. well_paired One 7 (fst sample_entry) p"
    by (simp add: sample_pairs_def well_paired_def switch_out_def switch_in_def sample_switch_def
        current_pid_def map_key_def sample_entry_def pair_delta_us_def MINBLOCK_US_def)
  have h2: "sample_pairs \<noteq> []" by (simp add: sample_pairs_def)
  have h3: "sorted (pair_clock sample_pairs)"
    by (simp add: sample_pairs_def pair_clock_def sample_switch_def)
  have h4: "map_of (counts no_tables) (fst sample_entry) = None"
    by (simp add: no_tables_def)
  have "sum_list (map pair_delta_us sample_pairs) = 5"
    by (simp add: sample_pairs_def pair_delta_us_def sample_switch_def)
  with paired_deltas_sum_exactly [OF h1 h2 h3 h4] h1 h2 h3 h4 show ?thesis
    by (simp add: list_all_iff)
qed

text \<open>
  Claim C3, evaluated on the code. With \<open>-p 185\<close> the filter the probe evaluates is
  \<open>pid == 185\<close> on the local \<open>pid\<close>, which is assigned from \<open>prev->pid\<close> only inside
  the block the filter guards. When thread 185 goes out while the local holds 0, no
  start is recorded for it; when thread 7 goes out while the local holds 185, a start
  is recorded for thread 7.
\<close>

theorem pid_filter_reads_unassigned_local:
  "filter_of (sample_args\<lparr>pid := Some 185\<rparr>) = Pid_eq 185
   \<and> start (oncpu (Pid_eq 185) (sample_switch 185 0 ''swapper/0'' 1000000) no_tables) 185 = None
   \<and> start (oncpu (Pid_eq 185)
               ((sample_switch 7 0 ''swapper/0'' 1000000)\<lparr>pid_uninit := 185\<rparr>) no_tables) 7
       = Some 1000000"
  by (simp add: filter_of_def oncpu_def record_prev_def current_pid_def sample_switch_def
      no_tables_def)



text \<open>
  Claim C5. When the thread coming in has no pending start, and this invocation does not
  record one for it, the probe returns with \<open>counts\<close> and the stack store as they were,
  and the thread still has no pending start.
\<close>

theorem missed_start_discarded:
  assumes "start s (current_pid e) = None"
    and "\<not> (eval_FILTER f e \<and> prev_pid e = current_pid e)"
  shows "counts (oncpu f e s) = counts s \<and> stack_traces (oncpu f e s) = stack_traces s
         \<and> start (oncpu f e s) (current_pid e) = None"
proof -
  have "start (record_prev f e s) (current_pid e) = None"
    using assms by (auto simp: start_record_prev)
  then show ?thesis
    by (simp add: oncpu_missed counts_record_prev stack_traces_record_prev)
qed

theorem missed_start_discarded_witness:
  "start no_tables (current_pid (sample_switch 0 7 ''worker'' 1002500)) = None
   \<and> \<not> (eval_FILTER One (sample_switch 0 7 ''worker'' 1002500)
          \<and> prev_pid (sample_switch 0 7 ''worker'' 1002500)
              = current_pid (sample_switch 0 7 ''worker'' 1002500))
   \<and> counts (oncpu One (sample_switch 0 7 ''worker'' 1002500) no_tables) = []
   \<and> stack_traces (oncpu One (sample_switch 0 7 ''worker'' 1002500) no_tables) = Map.empty
   \<and> start (oncpu One (sample_switch 0 7 ''worker'' 1002500) no_tables) 7 = None"
proof -
  let ?e = "sample_switch 0 7 ''worker'' 1002500"
  have cur: "current_pid ?e = 7" by (rule current_pid_sample_switch)
  have h1: "start no_tables (current_pid ?e) = None" by (simp add: no_tables_def)
  have h2: "\<not> (eval_FILTER One ?e \<and> prev_pid ?e = current_pid ?e)"
    by (simp add: cur) (simp add: sample_switch_def)
  from missed_start_discarded [OF h1 h2] h1 h2 show ?thesis
    by (simp add: cur) (simp add: no_tables_def)
qed

text \<open>
  Claim C9. When the thread coming in has a pending start and the delta is below the
  threshold, the pending start is gone after the invocation although nothing was added
  to \<open>counts\<close>; a later switch-in of the same thread, with no start recorded for it in
  between, finds nothing to pair with and adds nothing either.
\<close>

theorem pending_consumed_below_threshold:
  assumes "start (record_prev f e s) (current_pid e) = Some tsp"
    and "(ktime_delta e - tsp) div 1000 < MINBLOCK_US"
    and "current_pid e' = current_pid e"
    and "\<not> (eval_FILTER f e' \<and> prev_pid e' = current_pid e')"
  shows "start (oncpu f e s) (current_pid e) = None
         \<and> counts (oncpu f e s) = counts s
         \<and> counts (oncpu f e' (oncpu f e s)) = counts s"
proof -
  have gone: "start (oncpu f e s) (current_pid e) = None"
    using assms(1,2) by (simp add: oncpu_short)
  have same: "counts (oncpu f e s) = counts s"
    using assms(1,2) by (simp add: oncpu_short counts_record_prev)
  have "start (record_prev f e' (oncpu f e s)) (current_pid e') = None"
    using gone assms(3,4) by (auto simp: start_record_prev)
  then have "counts (oncpu f e' (oncpu f e s)) = counts (oncpu f e s)"
    by (simp add: oncpu_missed counts_record_prev)
  with gone same show ?thesis by simp
qed

theorem pending_consumed_below_threshold_witness:
  "start (record_prev One (sample_switch 0 7 ''worker'' 1000999)
            (no_tables\<lparr>start := [7 \<mapsto> 1000000]\<rparr>))
         (current_pid (sample_switch 0 7 ''worker'' 1000999)) = Some 1000000
   \<and> (ktime_delta (sample_switch 0 7 ''worker'' 1000999) - 1000000) div 1000 < MINBLOCK_US
   \<and> current_pid (sample_switch 0 7 ''worker'' 1002500)
       = current_pid (sample_switch 0 7 ''worker'' 1000999)
   \<and> \<not> (eval_FILTER One (sample_switch 0 7 ''worker'' 1002500)
          \<and> prev_pid (sample_switch 0 7 ''worker'' 1002500)
              = current_pid (sample_switch 0 7 ''worker'' 1002500))
   \<and> start (oncpu One (sample_switch 0 7 ''worker'' 1000999)
               (no_tables\<lparr>start := [7 \<mapsto> 1000000]\<rparr>)) 7 = None
   \<and> counts (oncpu One (sample_switch 0 7 ''worker'' 1000999)
                (no_tables\<lparr>start := [7 \<mapsto> 1000000]\<rparr>)) = []
   \<and> counts (oncpu One (sample_switch 0 7 ''worker'' 1002500)
                (oncpu One (sample_switch 0 7 ''worker'' 1000999)
                   (no_tables\<lparr>start := [7 \<mapsto> 1000000]\<rparr>))) = []"
proof -
  let ?e = "sample_switch 0 7 ''worker'' 1000999"
  let ?e' = "sample_switch 0 7 ''worker'' 1002500"
  let ?s = "no_tables\<lparr>start := [7 \<mapsto> 1000000]\<rparr>"
  have h1: "start (record_prev One ?e ?s) (current_pid ?e) = Some 1000000"
    by (simp add: current_pid_sample_switch start_record_prev) (simp add: sample_switch_def)
  have h2: "(ktime_delta ?e - 1000000) div 1000 < MINBLOCK_US"
    by (simp add: sample_switch_def MINBLOCK_US_def)
  have h3: "current_pid ?e' = current_pid ?e" by (simp add: current_pid_sample_switch)
  have h4: "\<not> (eval_FILTER One ?e' \<and> prev_pid ?e' = current_pid ?e')"
    by (simp add: current_pid_sample_switch) (simp add: sample_switch_def)
  have c: "counts ?s = []" by (simp add: no_tables_def)
  from pending_consumed_below_threshold [OF h1 h2 h3 h4] h1 h2 h3 h4 show ?thesis
    by (simp only: current_pid_sample_switch c simp_thms)
qed

section \<open>The script\<close>

subsection \<open>Rendering\<close>



lemma render_entry_verbose:
  "render_entry (a\<lparr>verbose := b\<rparr>) ks st = render_entry a ks st"
  by (rule ext) (simp add: render_entry_def)

lemma render_entries_verbose:
  "render_entries (a\<lparr>verbose := b\<rparr>) ks t = render_entries a ks t"
  by (simp add: render_entries_def render_entry_verbose)

lemma ljust_1: "ljust 16 [c] = c # ''               ''"
  by (simp add: ljust_def numeral_eq_Suc)

lemma multi_lines_sample:
  "multi_lines sample_ksym sample_stacks sample_entry =
     [''    a                frameA'',
      ''    b                frameB'',
      ''    -                worker'',
      ''        1500'',
      []]"
  by (simp add: multi_lines_def walk_def sample_entry_def sample_stacks_def sample_ksym_def
      hex.simps dec.simps digit_char_def ljust_1)

lemma render_sample_multi_line:
  "folded a = False \<Longrightarrow>
   render_entries a sample_ksym sample_tables =
     [''    a                frameA'',
      ''    b                frameB'',
      ''    -                worker'',
      ''        1500'',
      []]"
  by (simp add: render_entries_def render_entry_def sample_tables_def multi_lines_sample)

subsection \<open>The drain and the loop around it\<close>




lemma drain_verbose: "drain (a\<lparr>verbose := b\<rparr>) h p = drain a h p"
  by (simp add: drain_def render_entries_verbose)

lemma loop_body_verbose: "loop_body (a\<lparr>verbose := b\<rparr>) h p = loop_body a h p"
  by (simp add: loop_body_def drain_verbose filter_of_def split: sleep_result.splits)

text \<open>The body never falls through, so the loop is its body, run once.\<close>

lemma loop_body_not_Next: "loop_body a h p \<noteq> Next p'"
  by (simp add: loop_body_def Let_def split: sleep_result.splits)

lemma output_loop_once: "output_loop a h p = Some (loop_body a h p)"
  by (subst output_loop.simps) (simp add: loop_body_not_Next split: flow.splits)




subsection \<open>Claims about the script\<close>





text \<open>
  Claim C7, evaluated on the code. The option \<open>-v\<close> is declared with the help text
  "show raw addresses" and never read: a whole run of the script and the rendering of
  any tables are the same with and without it. On the sample entry the multi-line
  rendering prints the raw addresses \<open>a\<close> and \<open>b\<close> in both cases.
\<close>

theorem verbose_is_ignored:
  "script (a\<lparr>verbose := True\<rparr>) h = script (a\<lparr>verbose := False\<rparr>) h
   \<and> render_entries (a\<lparr>verbose := True\<rparr>) (ksym h) t
       = render_entries (a\<lparr>verbose := False\<rparr>) (ksym h) t
   \<and> render_entries (sample_args\<lparr>folded := False, verbose := True\<rparr>) sample_ksym sample_tables
       = [''    a                frameA'', ''    b                frameB'',
          ''    -                worker'', ''        1500'', []]
   \<and> render_entries (sample_args\<lparr>folded := False, verbose := False\<rparr>) sample_ksym sample_tables
       = [''    a                frameA'', ''    b                frameB'',
          ''    -                worker'', ''        1500'', []]"
proof -
  have "script (a\<lparr>verbose := True\<rparr>) h = script (a\<lparr>verbose := False\<rparr>) h"
    by (simp add: script_def Let_def output_loop_once loop_body_verbose split: option.splits)
  moreover have "render_entries (a\<lparr>verbose := True\<rparr>) (ksym h) t
       = render_entries (a\<lparr>verbose := False\<rparr>) (ksym h) t"
    by (simp add: render_entries_verbose)
  ultimately show ?thesis
    by (simp add: render_sample_multi_line)
qed

text \<open>
  Claim C8. With both \<open>-p\<close> and \<open>-u\<close> given the script ends before \<open>attach_kprobe\<close> is
  ever called: no attach, empty tables, no drain. When the duration text is an integer
  it ends by \<open>exit()\<close> having printed the one line \<open>ERROR: use either -p or -u.\<close>;
  otherwise \<open>int\<close> has raised before the check.
\<close>

theorem both_filters_rejected:
  assumes "pid a \<noteq> None" and "useronly a"
  shows "\<exists>r. script a h = Some r
           \<and> attach_calls (final r) = 0
           \<and> tables (final r) = no_tables
           \<and> drains (final r) = 0
           \<and> (duration a \<noteq> None \<longrightarrow>
                r = Exit (final r) \<and> stdout (final r) = [''ERROR: use either -p or -u.''])"
  using assms
  by (cases "duration a") (simp_all add: script_def new_process_def print_def)

theorem both_filters_rejected_witness:
  "pid (sample_args\<lparr>pid := Some 185, useronly := True\<rparr>) \<noteq> None
   \<and> useronly (sample_args\<lparr>pid := Some 185, useronly := True\<rparr>)
   \<and> duration (sample_args\<lparr>pid := Some 185, useronly := True\<rparr>) \<noteq> None
   \<and> (\<exists>r. script (sample_args\<lparr>pid := Some 185, useronly := True\<rparr>) sample_host = Some r
          \<and> attach_calls (final r) = 0
          \<and> tables (final r) = no_tables
          \<and> drains (final r) = 0
          \<and> r = Exit (final r)
          \<and> stdout (final r) = [''ERROR: use either -p or -u.''])"
proof -
  let ?a = "sample_args\<lparr>pid := Some 185, useronly := True\<rparr>"
  have h1: "pid ?a \<noteq> None" by simp
  have h2: "useronly ?a" by simp
  have h3: "duration ?a \<noteq> None" by (simp add: sample_args_def)
  from both_filters_rejected [OF h1 h2, of sample_host] h1 h2 h3 show ?thesis by blast
qed



end
